theory Spec2Isabelle
  imports Main
begin

section \<open>Data model\<close>

text \<open>
  The consumer reconciler of \<^verbatim>\<open>controllers/jetstream/consumer.go\<close>. Go errors are values
  with a text (\<^verbatim>\<open>Error()\<close>) and, for errors built by \<^verbatim>\<open>fmt.Errorf\<close> with \<^verbatim>\<open>%w\<close>, a wrapped
  error that \<^verbatim>\<open>errors.As\<close> can reach. \<open>ApiError\<close> is \<^verbatim>\<open>jsmapi.ApiError\<close>: its \<^verbatim>\<open>Code\<close> and the
  text its \<^verbatim>\<open>Error()\<close> method yields.
\<close>

datatype error =
    ErrorString string
  | ApiError int string
  | WrapError string error

fun Error :: "error \<Rightarrow> string" where
  "Error (ErrorString s) = s"
| "Error (ApiError code s) = s"
| "Error (WrapError s e) = s"

text \<open>\<^verbatim>\<open>errors.As(err, &apierr)\<close>: the first \<^verbatim>\<open>ApiError\<close> on the unwrap chain, if any.\<close>

fun errors_As_ApiError :: "error \<Rightarrow> int option" where
  "errors_As_ApiError (ErrorString s) = None"
| "errors_As_ApiError (ApiError code s) = Some code"
| "errors_As_ApiError (WrapError s e) = errors_As_ApiError e"

text \<open>\<^verbatim>\<open>apierr.NotFoundError()\<close> of jsm.go: the code is 404 (the tests build the not-found
  error as \<^verbatim>\<open>jsmapi.ApiError{Code: 404}\<close>).\<close>

definition NotFoundError :: "int \<Rightarrow> bool" where
  "NotFoundError code = (code = 404)"

text \<open>\<^verbatim>\<open>errors.As(err, &apierr) && apierr.NotFoundError()\<close> on a non-nil error.\<close>

definition isApiNotFound :: "error \<Rightarrow> bool" where
  "isApiNotFound err =
     (case errors_As_ApiError err of None \<Rightarrow> False | Some code \<Rightarrow> NotFoundError code)"

text \<open>\<^verbatim>\<open>fmt.Errorf(prefix + "%w", err)\<close>.\<close>

definition Errorf_w :: "string \<Rightarrow> error \<Rightarrow> error" where
  "Errorf_w prefix err = WrapError (prefix @ Error err) err"

text \<open>\<^verbatim>\<open>fmt.Errorf("%s: %w", err, serr)\<close>: the text of both, only \<open>serr\<close> wrapped.\<close>

definition Errorf_s_w :: "error \<Rightarrow> error \<Rightarrow> error" where
  "Errorf_s_w err serr = WrapError (Error err @ '': '' @ Error serr) serr"

datatype ConditionStatus = ConditionTrue | ConditionFalse | ConditionUnknown

record Condition =
  Type :: string
  CondStatus :: ConditionStatus
  LastTransitionTime :: string
  Reason :: string
  Message :: string

record CredentialsSecret =
  SecretName :: string
  SecretKey :: string

record ConsumerSpec =
  DurableName :: string
  StreamName :: string
  Servers :: "string list"
  CredentialsSecretRef :: CredentialsSecret

record ConsumerStatus =
  ObservedGeneration :: int
  Conditions :: "Condition list"

text \<open>\<^verbatim>\<open>apis.Consumer\<close>, with the fields of the embedded \<^verbatim>\<open>ObjectMeta\<close> the reconciler reads.\<close>

record Consumer =
  Namespace :: string
  Name :: string
  Generation :: int
  DeletionTimestamp :: "int option"
  Finalizers :: "string list"
  Spec :: ConsumerSpec
  Status :: ConsumerStatus

section \<open>Finalizer and condition helpers\<close>

definition consumerFinalizerKey :: string where
  "consumerFinalizerKey = ''consumerfinalizer.jetstream.nats.io''"

text \<open>Modelled from the spec: the constant \<^verbatim>\<open>readyCondType\<close> is declared outside the files
  at hand; the spec names the condition type \<^verbatim>\<open>Ready\<close>.\<close>

definition readyCondType :: string where
  "readyCondType = ''Ready''"

text \<open>Modelled from the spec: \<^verbatim>\<open>upsertCondition\<close> is defined outside the files at hand.
  "Condition upsert: replace the entry whose Type matches, else append."\<close>

fun upsertCondition :: "Condition list \<Rightarrow> Condition \<Rightarrow> Condition list" where
  "upsertCondition [] next = [next]"
| "upsertCondition (c # cs) next =
     (if Type c = Type next then next # cs else c # upsertCondition cs next)"

text \<open>Modelled from the spec: \<^verbatim>\<open>addFinalizer\<close> is defined outside the files at hand.
  "add is a no-op if already present".\<close>

definition addFinalizer :: "string list \<Rightarrow> string \<Rightarrow> string list" where
  "addFinalizer fs key = (if key \<in> set fs then fs else fs @ [key])"

text \<open>Modelled from the spec: \<^verbatim>\<open>removeFinalizer\<close> is defined outside the files at hand.
  "remove drops all occurrences of the token, order-preserving for the remainder".\<close>

definition removeFinalizer :: "string list \<Rightarrow> string \<Rightarrow> string list" where
  "removeFinalizer fs key = filter (\<lambda>f. f \<noteq> key) fs"

section \<open>Collaborators\<close>

text \<open>
  The reconciler talks to its collaborators through interfaces. Each is modelled by the
  answers it gives during one reconciliation; a method that can be called more than once
  in a run takes the number of earlier calls of that method, so that a second call may
  answer differently from the first. What the reconciler does to the outside is recorded
  in a trace, in the order it happens.
\<close>

datatype EventType = EventTypeNormal | EventTypeWarning

text \<open>Modelled from the spec: \<^verbatim>\<open>normalEvent\<close> and \<^verbatim>\<open>warningEvent\<close> are defined outside the
  files at hand; they produce events "{object, EventType(Normal|Warning), Reason, Message}".\<close>

datatype action =
    EventRecorded Consumer EventType string string
  | ConnectCalled string string string
  | CloseCalled
  | LoadConsumerCalled string string
  | NewConsumerCalled string string
  | DeleteCalled
  | UpdateCalled Consumer
  | UpdateStatusCalled Consumer

type_synonym trace = "action list"

fun isLoadConsumerCalled :: "action \<Rightarrow> bool" where
  "isLoadConsumerCalled (LoadConsumerCalled stream consumer) = True"
| "isLoadConsumerCalled a = False"

fun isUpdateStatusCalled :: "action \<Rightarrow> bool" where
  "isUpdateStatusCalled (UpdateStatusCalled obj) = True"
| "isUpdateStatusCalled a = False"

definition loadCalls :: "trace \<Rightarrow> nat" where
  "loadCalls h = length (filter isLoadConsumerCalled h)"

definition statusCalls :: "trace \<Rightarrow> nat" where
  "statusCalls h = length (filter isUpdateStatusCalled h)"

text \<open>The handle \<^verbatim>\<open>LoadConsumer\<close> returns; \<open>Delete\<close> is the outcome of its \<^verbatim>\<open>Delete()\<close>.\<close>

record jsmDeleter =
  Delete :: "error option"

text \<open>\<^verbatim>\<open>jsmClient\<close>. \<open>Connect\<close> takes the joined server list and, in place of the options
  \<^verbatim>\<open>getNATSOptions(c.natsName, creds)\<close>, the two arguments they are built from.\<close>

record jsmClient =
  Connect :: "string \<Rightarrow> string \<Rightarrow> string \<Rightarrow> error option"
  LoadConsumer :: "nat \<Rightarrow> string \<Rightarrow> string \<Rightarrow> error + jsmDeleter"
  NewConsumer :: "string \<Rightarrow> string \<Rightarrow> error option"

text \<open>\<^verbatim>\<open>typed.ConsumerInterface\<close>: the two writes the reconciler uses.\<close>

record ConsumerInterface =
  Update :: "Consumer \<Rightarrow> error + Consumer"
  UpdateStatus :: "nat \<Rightarrow> Consumer \<Rightarrow> error + Consumer"

text \<open>The fields of \<^verbatim>\<open>Controller\<close> the reconciler uses: the lister's
  \<^verbatim>\<open>Consumers(ns).Get(name)\<close>, the typed client \<^verbatim>\<open>ji.Consumers(ns)\<close> and the connection name.\<close>

record Controller =
  cnsLister_Get :: "string \<Rightarrow> string \<Rightarrow> error + Consumer"
  ji_Consumers :: "string \<Rightarrow> ConsumerInterface"
  natsName :: string

text \<open>
  What the file uses and neither declares nor has at hand, taken as parameters:
  the constant \<^verbatim>\<open>streamFinalizerKey\<close>; the outcome of \<^verbatim>\<open>getCreds\<close> for a credentials
  reference in a namespace; \<^verbatim>\<open>k8serrors.IsNotFound\<close>; the \<^verbatim>\<open>%q\<close> verb of \<^verbatim>\<open>fmt\<close>; and the clock
  \<^verbatim>\<open>time.Now().UTC().Format(time.RFC3339Nano)\<close>, read once before each status write.
\<close>

record Env =
  streamFinalizerKey :: string
  getCreds :: "CredentialsSecret \<Rightarrow> string \<Rightarrow> error + string"
  IsNotFound :: "error \<Rightarrow> bool"
  fmt_q :: "string \<Rightarrow> string"
  time_Now :: "nat \<Rightarrow> string"

text \<open>\<^verbatim>\<open>strings.Join\<close>.\<close>

fun strings_Join :: "string list \<Rightarrow> string \<Rightarrow> string" where
  "strings_Join [] sep = []"
| "strings_Join [x] sep = x"
| "strings_Join (x # y # ys) sep = x @ sep @ strings_Join (y # ys) sep"

section \<open>The consumer reconciler\<close>

definition consumerExists ::
  "jsmClient \<Rightarrow> string \<Rightarrow> string \<Rightarrow> trace \<Rightarrow> (bool \<times> error option) \<times> trace" where
  "consumerExists c stream consumer h =
     (let h' = h @ [LoadConsumerCalled stream consumer] in
      case LoadConsumer c (loadCalls h) stream consumer of
        Inl err \<Rightarrow>
          if isApiNotFound err then ((False, None), h')
          else ((False, Some (Errorf_w ''failed to check if consumer exists: '' err)), h')
      | Inr cn \<Rightarrow> ((True, None), h'))"

definition createConsumer ::
  "Env \<Rightarrow> jsmClient \<Rightarrow> ConsumerSpec \<Rightarrow> trace \<Rightarrow> error option \<times> trace" where
  "createConsumer x c spec h =
     (let h' = h @ [NewConsumerCalled (StreamName spec) (DurableName spec)] in
      case NewConsumer c (StreamName spec) (DurableName spec) of
        Some err \<Rightarrow>
          (Some (Errorf_w (''failed to create consumer '' @ fmt_q x (DurableName spec)
                   @ '' on stream '' @ fmt_q x (StreamName spec) @ '': '') err), h')
      | None \<Rightarrow> (None, h'))"

definition deleteConsumer ::
  "Env \<Rightarrow> jsmClient \<Rightarrow> string \<Rightarrow> string \<Rightarrow> trace \<Rightarrow> error option \<times> trace" where
  "deleteConsumer x c stream consumer h =
     (let h' = h @ [LoadConsumerCalled stream consumer];
          wrap = Errorf_w (''failed to delete consumer '' @ fmt_q x consumer
                   @ '' on stream '' @ fmt_q x stream @ '': '') in
      case LoadConsumer c (loadCalls h) stream consumer of
        Inl err \<Rightarrow> if isApiNotFound err then (None, h') else (Some (wrap err), h')
      | Inr cn \<Rightarrow>
          (case Delete cn of
             Some err \<Rightarrow> (Some (wrap err), h' @ [DeleteCalled])
           | None \<Rightarrow> (None, h' @ [DeleteCalled])))"

definition setConsumerOK ::
  "Env \<Rightarrow> Consumer \<Rightarrow> ConsumerInterface \<Rightarrow> trace \<Rightarrow> (error + Consumer) \<times> trace" where
  "setConsumerOK x s i h =
     (let sc = s\<lparr>Status := \<lparr>ObservedGeneration = Generation s,
                   Conditions = upsertCondition (Conditions (Status s))
                     \<lparr>Type = readyCondType, CondStatus = ConditionTrue,
                      LastTransitionTime = time_Now x (statusCalls h),
                      Reason = ''Created'', Message = ''Consumer successfully created''\<rparr>\<rparr>\<rparr>;
          h' = h @ [UpdateStatusCalled sc] in
      case UpdateStatus i (statusCalls h) sc of
        Inl err \<Rightarrow>
          (Inl (Errorf_w (''failed to set consumer '' @ fmt_q x (DurableName (Spec s))
                  @ '' status: '') err), h')
      | Inr res \<Rightarrow> (Inr res, h'))"

definition setConsumerErrored ::
  "Env \<Rightarrow> Consumer \<Rightarrow> ConsumerInterface \<Rightarrow> error option \<Rightarrow> trace
     \<Rightarrow> (error + Consumer) \<times> trace" where
  "setConsumerErrored x s sif err h =
     (case err of
        None \<Rightarrow> (Inr s, h)
      | Some e \<Rightarrow>
          (let sc = s\<lparr>Status := (Status s)\<lparr>Conditions :=
                      upsertCondition (Conditions (Status s))
                        \<lparr>Type = readyCondType, CondStatus = ConditionFalse,
                         LastTransitionTime = time_Now x (statusCalls h),
                         Reason = ''Errored'', Message = Error e\<rparr>\<rparr>\<rparr>;
               h' = h @ [UpdateStatusCalled sc] in
           case UpdateStatus sif (statusCalls h) sc of
             Inl uerr \<Rightarrow> (Inl (Errorf_w ''failed to set consumer errored status: '' uerr), h')
           | Inr res \<Rightarrow> (Inr res, h')))"

text \<open>
  \<^verbatim>\<open>setConsumerFinalizer\<close> and \<^verbatim>\<open>clearConsumerFinalizer\<close> change the finalizers of the object
  they are given in place, before the write; the caller's pointer sees the change also
  when the write fails. The second component of the result is that object afterwards.
\<close>

definition setConsumerFinalizer ::
  "Env \<Rightarrow> Consumer \<Rightarrow> ConsumerInterface \<Rightarrow> trace
     \<Rightarrow> (error + Consumer) \<times> Consumer \<times> trace" where
  "setConsumerFinalizer x s i h =
     (let s' = s\<lparr>Finalizers := addFinalizer (Finalizers s) (streamFinalizerKey x)\<rparr>;
          h' = h @ [UpdateCalled s'] in
      case Update i s' of
        Inl err \<Rightarrow>
          (Inl (Errorf_w (''failed to set finalizers for consumer ''
                  @ fmt_q x (DurableName (Spec s')) @ '': '') err), s', h')
      | Inr res \<Rightarrow> (Inr res, s', h'))"

definition clearConsumerFinalizer ::
  "Env \<Rightarrow> Consumer \<Rightarrow> ConsumerInterface \<Rightarrow> trace
     \<Rightarrow> (error + Consumer) \<times> Consumer \<times> trace" where
  "clearConsumerFinalizer x s i h =
     (let s' = s\<lparr>Finalizers := removeFinalizer (Finalizers s) (streamFinalizerKey x)\<rparr>;
          h' = h @ [UpdateCalled s'] in
      case Update i s' of
        Inl err \<Rightarrow>
          (Inl (Errorf_w (''failed to clear finalizers for consumer ''
                  @ fmt_q x (DurableName (Spec s')) @ '': '') err), s', h')
      | Inr res \<Rightarrow> (Inr res, s', h'))"

text \<open>
  Lines 72 to 116 of \<^verbatim>\<open>processConsumer\<close>, run with the connection open: the result is the
  error returned (if any), the object the variable \<^verbatim>\<open>cns\<close> points to at that moment (the
  deferred error handler reads it), and the trace.
\<close>

definition processConsumer_switch ::
  "Env \<Rightarrow> Controller \<Rightarrow> ConsumerInterface \<Rightarrow> Consumer \<Rightarrow> jsmClient \<Rightarrow> trace
     \<Rightarrow> error option \<times> Consumer \<times> trace" where
  "processConsumer_switch x c ifc cns jsmc h =
     (let spec = Spec cns;
          deleteOK = (DeletionTimestamp cns \<noteq> None);
          newGeneration = (Generation cns \<noteq> ObservedGeneration (Status cns)) in
      case consumerExists jsmc (StreamName spec) (DurableName spec) h of
        ((ok, Some err), h1) \<Rightarrow> (Some err, cns, h1)
      | ((consumerOK, None), h1) \<Rightarrow>
          (let updateOK = (consumerOK \<and> \<not> deleteOK \<and> newGeneration);
               createOK = (\<not> consumerOK \<and> \<not> deleteOK \<and> newGeneration) in
           if createOK then
             (let h2 = h1 @ [EventRecorded cns EventTypeNormal ''Creating''
                        (''Creating consumer '' @ fmt_q x (DurableName spec)
                           @ '' on stream '' @ fmt_q x (StreamName spec))] in
              case createConsumer x jsmc spec h2 of
                (Some err, h3) \<Rightarrow> (Some err, cns, h3)
              | (None, h3) \<Rightarrow>
                  (case setConsumerFinalizer x cns ifc h3 of
                     (Inl err, cns', h4) \<Rightarrow> (Some err, cns', h4)
                   | (Inr res, cns', h4) \<Rightarrow>
                       (case setConsumerOK x res ifc h4 of
                          (Inl err, h5) \<Rightarrow> (Some err, res, h5)
                        | (Inr res', h5) \<Rightarrow>
                            (None, res, h5 @ [EventRecorded res EventTypeNormal ''Created''
                               (''Created consumer '' @ fmt_q x (DurableName spec)
                                  @ '' on stream '' @ fmt_q x (StreamName spec))]))))
           else if updateOK then
             (None, cns, h1 @ [EventRecorded cns EventTypeWarning ''Updating''
                (''Consumer updates ('' @ fmt_q x (DurableName spec) @ '' on ''
                   @ fmt_q x (StreamName spec) @ '') are not allowed, recreate to update'')])
           else if deleteOK then
             (let h2 = h1 @ [EventRecorded cns EventTypeNormal ''Deleting''
                        (''Deleting consumer '' @ fmt_q x (DurableName spec)
                           @ '' on stream '' @ fmt_q x (StreamName spec))] in
              case deleteConsumer x jsmc (StreamName spec) (DurableName spec) h2 of
                (Some err, h3) \<Rightarrow> (Some err, cns, h3)
              | (None, h3) \<Rightarrow>
                  (case clearConsumerFinalizer x cns ifc h3 of
                     (Inl err, cns', h4) \<Rightarrow> (Some err, cns', h4)
                   | (Inr res, cns', h4) \<Rightarrow> (None, cns', h4)))
           else
             (None, cns, h1 @ [EventRecorded cns EventTypeWarning ''Noop''
                (''Nothing done for consumer '' @ fmt_q x (DurableName spec))])))"

text \<open>
  Lines 56 to 116, with the deferred \<^verbatim>\<open>jsmc.Close()\<close>, which is registered once the
  connection is open and runs first among the deferred calls.
\<close>

definition processConsumer_body ::
  "Env \<Rightarrow> Controller \<Rightarrow> string \<Rightarrow> Consumer \<Rightarrow> jsmClient
     \<Rightarrow> error option \<times> Consumer \<times> trace" where
  "processConsumer_body x c ns cns jsmc =
     (let spec = Spec cns; ifc = ji_Consumers c ns in
      case getCreds x (CredentialsSecretRef spec) ns of
        Inl err \<Rightarrow> (Some err, cns, [])
      | Inr creds \<Rightarrow>
          (let servers = strings_Join (Servers spec) '','';
               h1 = [EventRecorded cns EventTypeNormal ''Connecting'' ''Connecting to NATS Server'',
                     ConnectCalled servers (natsName c) creds] in
           case Connect jsmc servers (natsName c) creds of
             Some err \<Rightarrow> (Some err, cns, h1)
           | None \<Rightarrow>
               (case processConsumer_switch x c ifc cns jsmc
                       (h1 @ [EventRecorded cns EventTypeNormal ''Connected''
                                ''Connected to NATS Server'']) of
                  (err, cns', h2) \<Rightarrow> (err, cns', h2 @ [CloseCalled]))))"

text \<open>
  \<^verbatim>\<open>processConsumer\<close>: the cache read, the body, then the two deferred functions in the
  reverse order of their registration: the error status write, then the outer wrap.
\<close>

definition processConsumer ::
  "Env \<Rightarrow> Controller \<Rightarrow> string \<Rightarrow> string \<Rightarrow> jsmClient \<Rightarrow> error option \<times> trace" where
  "processConsumer x c ns name jsmc =
     (case cnsLister_Get c ns name of
        Inl err \<Rightarrow>
          if IsNotFound x err then (None, [])
          else (Some (Errorf_w ''failed to process consumer: '' err), [])
      | Inr cns \<Rightarrow>
          (case processConsumer_body x c ns cns jsmc of
             (None, cns', h) \<Rightarrow> (None, h)
           | (Some err, cns', h) \<Rightarrow>
               (case setConsumerErrored x cns' (ji_Consumers c ns) (Some err) h of
                  (Inl serr, h') \<Rightarrow>
                    (Some (Errorf_w ''failed to process consumer: '' (Errorf_s_w err serr)), h')
                | (Inr res, h') \<Rightarrow>
                    (Some (Errorf_w ''failed to process consumer: '' err), h'))))"

section \<open>The error path, as a predicate on the outcome\<close>

text \<open>
  \<open>erroredOutcome x ifc s e out\<close>: the run \<open>out\<close> ended on the error path for the
  error \<open>e\<close> with the object \<open>s\<close> in hand. Its last action is a status write of \<open>s\<close> with a
  Ready condition (Status False, Reason Errored, Message the text of \<open>e\<close>) upserted into
  its conditions. When that write succeeds the returned error wraps \<open>e\<close> with the text
  "failed to process consumer: " followed by the text of \<open>e\<close>. When it fails with \<open>uerr\<close>
  the returned text is that of \<open>e\<close> followed by ": failed to set consumer errored status: "
  and the text of \<open>uerr\<close>, under the same prefix, and \<open>uerr\<close> is on the unwrap chain: the
  failure of the write is kept in the returned error, in its text and in its chain.
\<close>

definition erroredOutcome ::
  "Env \<Rightarrow> ConsumerInterface \<Rightarrow> Consumer \<Rightarrow> error \<Rightarrow> error option \<times> trace \<Rightarrow> bool" where
  "erroredOutcome x ifc s e out =
     (case out of (r, tr) \<Rightarrow>
        tr \<noteq> [] \<and>
        (let n = statusCalls (butlast tr);
             sc = s\<lparr>Status := (Status s)\<lparr>Conditions :=
                    upsertCondition (Conditions (Status s))
                      \<lparr>Type = readyCondType, CondStatus = ConditionFalse,
                       LastTransitionTime = time_Now x n,
                       Reason = ''Errored'', Message = Error e\<rparr>\<rparr>\<rparr> in
         last tr = UpdateStatusCalled sc \<and>
         r = (case UpdateStatus ifc n sc of
                Inr res \<Rightarrow> Some (WrapError (''failed to process consumer: '' @ Error e) e)
              | Inl uerr \<Rightarrow>
                  Some (WrapError
                    (''failed to process consumer: '' @ Error e
                       @ '': failed to set consumer errored status: '' @ Error uerr)
                    (WrapError
                       (Error e @ '': failed to set consumer errored status: '' @ Error uerr)
                       (WrapError (''failed to set consumer errored status: '' @ Error uerr)
                          uerr))))))"

section \<open>Order of actions in a trace\<close>






section \<open>Test fixtures\<close>

text \<open>
  The objects and doubles of \<^verbatim>\<open>TestProcessConsumer\<close>: a fake store holding one Consumer
  whose update reactor answers every write with the object written, and a mock client
  answering every call with the configured values.
\<close>

definition testConsumer :: "int \<Rightarrow> int \<Rightarrow> int option \<Rightarrow> Consumer" where
  "testConsumer gen observed deletion =
     \<lparr>Namespace = ''default'', Name = ''my-consumer'', Generation = gen,
      DeletionTimestamp = deletion, Finalizers = [consumerFinalizerKey],
      Spec = \<lparr>DurableName = ''my-consumer'', StreamName = [], Servers = [],
               CredentialsSecretRef = \<lparr>SecretName = [], SecretKey = []\<rparr>\<rparr>,
      Status = \<lparr>ObservedGeneration = observed, Conditions = []\<rparr>\<rparr>"

definition updateObject :: ConsumerInterface where
  "updateObject = \<lparr>Update = (\<lambda>obj. Inr obj), UpdateStatus = (\<lambda>n obj. Inr obj)\<rparr>"

text \<open>A store that rejects every write.\<close>

definition rejectingStore :: ConsumerInterface where
  "rejectingStore =
     \<lparr>Update = (\<lambda>obj. Inl (ErrorString ''conflict'')),
      UpdateStatus = (\<lambda>n obj. Inl (ErrorString ''conflict''))\<rparr>"

definition fakeController :: "Consumer \<Rightarrow> Controller" where
  "fakeController obj =
     \<lparr>cnsLister_Get = (\<lambda>ns name.
        if ns = Namespace obj \<and> name = Name obj then Inr obj
        else Inl (ErrorString ''not found'')),
      ji_Consumers = (\<lambda>ns. updateObject),
      natsName = []\<rparr>"

definition rejectingController :: "Consumer \<Rightarrow> Controller" where
  "rejectingController obj = (fakeController obj)\<lparr>ji_Consumers := (\<lambda>ns. rejectingStore)\<rparr>"

definition mockJsmClient ::
  "error option \<Rightarrow> error + jsmDeleter \<Rightarrow> error option \<Rightarrow> jsmClient" where
  "mockJsmClient connectErr loadConsumer newConsumerErr =
     \<lparr>Connect = (\<lambda>servers name creds. connectErr),
      LoadConsumer = (\<lambda>n stream consumer. loadConsumer),
      NewConsumer = (\<lambda>stream durable. newConsumerErr)\<rparr>"

definition notFoundErr :: error where
  "notFoundErr = ApiError 404 ''unknown JetStream 404 Error''"

definition mockDeleter :: jsmDeleter where
  "mockDeleter = \<lparr>Delete = None\<rparr>"

text \<open>An environment for the fixtures: a finalizer token for streams different from the
  consumer one, no credentials, a quoting function and a fixed clock.\<close>

definition testEnv :: Env where
  "testEnv =
     \<lparr>streamFinalizerKey = ''streamfinalizer.jetstream.nats.io'',
      getCreds = (\<lambda>ref ns. Inr []),
      IsNotFound = (\<lambda>err. err = ErrorString ''not found''),
      fmt_q = (\<lambda>s. CHR 0x22 # s @ [CHR 0x22]),
      time_Now = (\<lambda>n. ''2020-09-16T00:42:03Z'')\<rparr>"

section \<open>Condition upsert\<close>

lemma upsertCondition_types:
  "set (map Type (upsertCondition cs c)) = insert (Type c) (set (map Type cs))"
  by (induction cs) auto

lemma upsertCondition_present:
  "Type c \<in> set (map Type cs) \<Longrightarrow> length (upsertCondition cs c) = length cs"
  by (induction cs) auto

lemma upsertCondition_absent:
  "Type c \<notin> set (map Type cs) \<Longrightarrow> upsertCondition cs c = cs @ [c]"
  by (induction cs) auto

lemma upsertCondition_replaces:
  "Type c \<in> set (map Type cs) \<Longrightarrow>
   upsertCondition cs c =
     takeWhile (\<lambda>x. Type x \<noteq> Type c) cs @ c # tl (dropWhile (\<lambda>x. Type x \<noteq> Type c) cs)"
  by (induction cs) auto

lemma upsertCondition_distinct:
  "distinct (map Type cs) \<Longrightarrow> distinct (map Type (upsertCondition cs c))"
proof (induction cs)
  case Nil
  then show ?case by simp
next
  case (Cons a cs)
  have "Type a \<noteq> Type c \<Longrightarrow> Type a \<notin> set (map Type (upsertCondition cs c))"
    using Cons.prems by (simp only: upsertCondition_types) auto
  with Cons show ?case by auto
qed

lemma upsertCondition_member: "c \<in> set (upsertCondition cs c)"
  by (induction cs) auto

text \<open>
  C10. Condition upsert replaces the existing entry whose Type matches the new condition's
  Type (the first such entry; the entries before and after it are kept), else appends the
  new condition. On a list with at most one entry per Type the result has at most one
  entry per Type, and upserting the same condition a second time yields a list as long as
  upserting it once.
\<close>

theorem upsertCondition_replace_or_append:
  "upsertCondition cs c =
     (if Type c \<in> set (map Type cs)
      then takeWhile (\<lambda>x. Type x \<noteq> Type c) cs @ c # tl (dropWhile (\<lambda>x. Type x \<noteq> Type c) cs)
      else cs @ [c])
   \<and> (distinct (map Type cs) \<longrightarrow> distinct (map Type (upsertCondition cs c)))
   \<and> length (upsertCondition (upsertCondition cs c) c) = length (upsertCondition cs c)"
proof -
  have "Type c \<in> set (map Type (upsertCondition cs c))"
    by (simp only: upsertCondition_types) simp
  then have "length (upsertCondition (upsertCondition cs c) c) = length (upsertCondition cs c)"
    by (rule upsertCondition_present)
  then show ?thesis
    using upsertCondition_replaces [of c cs] upsertCondition_absent [of c cs]
      upsertCondition_distinct [of cs c]
    by simp
qed

theorem upsertCondition_replace_or_append_witness:
  "distinct (map Type
     [\<lparr>Type = ''Ready'', CondStatus = ConditionFalse, LastTransitionTime = ''t0'',
       Reason = ''Errored'', Message = ''nats connect failed''\<rparr>,
      \<lparr>Type = ''Synced'', CondStatus = ConditionUnknown, LastTransitionTime = ''t0'',
       Reason = [], Message = []\<rparr>])
   \<and> upsertCondition
     [\<lparr>Type = ''Ready'', CondStatus = ConditionFalse, LastTransitionTime = ''t0'',
       Reason = ''Errored'', Message = ''nats connect failed''\<rparr>,
      \<lparr>Type = ''Synced'', CondStatus = ConditionUnknown, LastTransitionTime = ''t0'',
       Reason = [], Message = []\<rparr>]
     \<lparr>Type = ''Ready'', CondStatus = ConditionTrue, LastTransitionTime = ''t1'',
      Reason = ''Created'', Message = ''Consumer successfully created''\<rparr>
   = [\<lparr>Type = ''Ready'', CondStatus = ConditionTrue, LastTransitionTime = ''t1'',
       Reason = ''Created'', Message = ''Consumer successfully created''\<rparr>,
      \<lparr>Type = ''Synced'', CondStatus = ConditionUnknown, LastTransitionTime = ''t0'',
       Reason = [], Message = []\<rparr>]
   \<and> distinct (map Type (upsertCondition
     [\<lparr>Type = ''Ready'', CondStatus = ConditionFalse, LastTransitionTime = ''t0'',
       Reason = ''Errored'', Message = ''nats connect failed''\<rparr>,
      \<lparr>Type = ''Synced'', CondStatus = ConditionUnknown, LastTransitionTime = ''t0'',
       Reason = [], Message = []\<rparr>]
     \<lparr>Type = ''Ready'', CondStatus = ConditionTrue, LastTransitionTime = ''t1'',
      Reason = ''Created'', Message = ''Consumer successfully created''\<rparr>))"
  using upsertCondition_replace_or_append
    [of "[\<lparr>Type = ''Ready'', CondStatus = ConditionFalse, LastTransitionTime = ''t0'',
           Reason = ''Errored'', Message = ''nats connect failed''\<rparr>,
          \<lparr>Type = ''Synced'', CondStatus = ConditionUnknown, LastTransitionTime = ''t0'',
           Reason = [], Message = []\<rparr>]"
        "\<lparr>Type = ''Ready'', CondStatus = ConditionTrue, LastTransitionTime = ''t1'',
          Reason = ''Created'', Message = ''Consumer successfully created''\<rparr>"]
  by simp

section \<open>Reconciliation of a Consumer\<close>

lemmas reconciler_defs =
  processConsumer_def processConsumer_body_def processConsumer_switch_def
  consumerExists_def createConsumer_def deleteConsumer_def setConsumerOK_def
  setConsumerErrored_def setConsumerFinalizer_def clearConsumerFinalizer_def
  loadCalls_def statusCalls_def Let_def

lemmas fixture_defs =
  testConsumer_def updateObject_def fakeController_def mockJsmClient_def notFoundErr_def
  mockDeleter_def testEnv_def consumerFinalizerKey_def isApiNotFound_def NotFoundError_def

subsection \<open>What each step appends to the trace\<close>

lemma consumerExists_trace:
  "snd (consumerExists c stream consumer h) = h @ [LoadConsumerCalled stream consumer]"
  by (simp add: consumerExists_def Let_def split: sum.splits)

lemma createConsumer_trace:
  "snd (createConsumer x c spec h) = h @ [NewConsumerCalled (StreamName spec) (DurableName spec)]"
  by (simp add: createConsumer_def Let_def split: option.splits)

lemma deleteConsumer_trace:
  "\<exists>suf. snd (deleteConsumer x c stream consumer h) = h @ LoadConsumerCalled stream consumer # suf"
  by (simp add: deleteConsumer_def Let_def split: sum.splits option.splits)

lemma processConsumer_switch_delete_trace:
  assumes "DeletionTimestamp cns \<noteq> None"
    and "fst (consumerExists jsmc (StreamName (Spec cns)) (DurableName (Spec cns)) h) = (ok, None)"
  shows "\<exists>suf. snd (snd (processConsumer_switch x c ifc cns jsmc h)) =
     h @ [LoadConsumerCalled (StreamName (Spec cns)) (DurableName (Spec cns)),
          EventRecorded cns EventTypeNormal ''Deleting''
            (''Deleting consumer '' @ fmt_q x (DurableName (Spec cns))
               @ '' on stream '' @ fmt_q x (StreamName (Spec cns))),
          LoadConsumerCalled (StreamName (Spec cns)) (DurableName (Spec cns))] @ suf"
proof -
  let ?s = "StreamName (Spec cns)" and ?d = "DurableName (Spec cns)"
  let ?h2 = "h @ [LoadConsumerCalled ?s ?d,
          EventRecorded cns EventTypeNormal ''Deleting''
            (''Deleting consumer '' @ fmt_q x ?d @ '' on stream '' @ fmt_q x ?s)]"
  have ce: "consumerExists jsmc ?s ?d h = ((ok, None), h @ [LoadConsumerCalled ?s ?d])"
    using assms(2) consumerExists_trace [of jsmc ?s ?d h] by (simp add: prod_eq_iff)
  obtain derr h3 where del: "deleteConsumer x jsmc ?s ?d ?h2 = (derr, h3)"
    by (metis surj_pair)
  obtain suf where h3: "h3 = ?h2 @ LoadConsumerCalled ?s ?d # suf"
    using deleteConsumer_trace [of x jsmc ?s ?d ?h2] del by auto
  show ?thesis
    using assms(1) ce del h3
    by (auto simp add: processConsumer_switch_def clearConsumerFinalizer_def Let_def
        split: option.splits sum.splits)
qed

lemma processConsumer_switch_create_trace:
  assumes "DeletionTimestamp cns = None"
    and "Generation cns \<noteq> ObservedGeneration (Status cns)"
    and "fst (consumerExists jsmc (StreamName (Spec cns)) (DurableName (Spec cns)) h)
           = (False, None)"
  shows "\<exists>suf. snd (snd (processConsumer_switch x c ifc cns jsmc h)) =
     h @ [LoadConsumerCalled (StreamName (Spec cns)) (DurableName (Spec cns)),
          EventRecorded cns EventTypeNormal ''Creating''
            (''Creating consumer '' @ fmt_q x (DurableName (Spec cns))
               @ '' on stream '' @ fmt_q x (StreamName (Spec cns))),
          NewConsumerCalled (StreamName (Spec cns)) (DurableName (Spec cns))] @ suf"
proof -
  let ?s = "StreamName (Spec cns)" and ?d = "DurableName (Spec cns)"
  let ?h2 = "h @ [LoadConsumerCalled ?s ?d,
          EventRecorded cns EventTypeNormal ''Creating''
            (''Creating consumer '' @ fmt_q x ?d @ '' on stream '' @ fmt_q x ?s)]"
  have ce: "consumerExists jsmc ?s ?d h = ((False, None), h @ [LoadConsumerCalled ?s ?d])"
    using assms(3) consumerExists_trace [of jsmc ?s ?d h] by (simp add: prod_eq_iff)
  obtain cerr h3 where cr: "createConsumer x jsmc (Spec cns) ?h2 = (cerr, h3)"
    by (metis surj_pair)
  have h3: "h3 = ?h2 @ [NewConsumerCalled ?s ?d]"
    using createConsumer_trace [of x jsmc "Spec cns" ?h2] cr by simp
  show ?thesis
    using assms(1,2) ce cr h3
    by (auto simp add: processConsumer_switch_def setConsumerFinalizer_def setConsumerOK_def
        Let_def split: option.splits sum.splits)
qed

lemma processConsumer_switch_update:
  assumes "DeletionTimestamp cns = None"
    and "Generation cns \<noteq> ObservedGeneration (Status cns)"
    and "fst (consumerExists jsmc (StreamName (Spec cns)) (DurableName (Spec cns)) h)
           = (True, None)"
  shows "processConsumer_switch x c ifc cns jsmc h =
     (None, cns,
      h @ [LoadConsumerCalled (StreamName (Spec cns)) (DurableName (Spec cns)),
           EventRecorded cns EventTypeWarning ''Updating''
             (''Consumer updates ('' @ fmt_q x (DurableName (Spec cns)) @ '' on ''
                @ fmt_q x (StreamName (Spec cns))
                @ '') are not allowed, recreate to update'')])"
proof -
  let ?s = "StreamName (Spec cns)" and ?d = "DurableName (Spec cns)"
  have ce: "consumerExists jsmc ?s ?d h = ((True, None), h @ [LoadConsumerCalled ?s ?d])"
    using assms(3) consumerExists_trace [of jsmc ?s ?d h] by (simp add: prod_eq_iff)
  show ?thesis
    using assms(1,2) ce by (simp add: processConsumer_switch_def Let_def)
qed

lemma processConsumer_switch_noop:
  assumes "DeletionTimestamp cns = None"
    and "Generation cns = ObservedGeneration (Status cns)"
    and "fst (consumerExists jsmc (StreamName (Spec cns)) (DurableName (Spec cns)) h)
           = (ok, None)"
  shows "processConsumer_switch x c ifc cns jsmc h =
     (None, cns,
      h @ [LoadConsumerCalled (StreamName (Spec cns)) (DurableName (Spec cns)),
           EventRecorded cns EventTypeWarning ''Noop''
             (''Nothing done for consumer '' @ fmt_q x (DurableName (Spec cns)))])"
proof -
  let ?s = "StreamName (Spec cns)" and ?d = "DurableName (Spec cns)"
  have ce: "consumerExists jsmc ?s ?d h = ((ok, None), h @ [LoadConsumerCalled ?s ?d])"
    using assms(3) consumerExists_trace [of jsmc ?s ?d h] by (simp add: prod_eq_iff)
  show ?thesis
    using assms(1,2) ce by (simp add: processConsumer_switch_def Let_def)
qed

text \<open>The body with the connection open, and the function around the body.\<close>

lemma processConsumer_body_connected:
  assumes "getCreds x (CredentialsSecretRef (Spec cns)) ns = Inr creds"
    and "Connect jsmc (strings_Join (Servers (Spec cns)) '','') (natsName c) creds = None"
  shows "processConsumer_body x c ns cns jsmc =
     (case processConsumer_switch x c (ji_Consumers c ns) cns jsmc
        [EventRecorded cns EventTypeNormal ''Connecting'' ''Connecting to NATS Server'',
         ConnectCalled (strings_Join (Servers (Spec cns)) '','') (natsName c) creds,
         EventRecorded cns EventTypeNormal ''Connected'' ''Connected to NATS Server''] of
        (err, cns', h2) \<Rightarrow> (err, cns', h2 @ [CloseCalled]))"
  using assms by (simp add: processConsumer_body_def Let_def)

lemma processConsumer_success:
  assumes "cnsLister_Get c ns name = Inr cns"
    and "processConsumer_body x c ns cns jsmc = (None, cns', h)"
  shows "processConsumer x c ns name jsmc = (None, h)"
  using assms by (simp add: processConsumer_def)

lemma processConsumer_extends_body:
  assumes "cnsLister_Get c ns name = Inr cns"
  shows "\<exists>suf. snd (processConsumer x c ns name jsmc)
           = snd (snd (processConsumer_body x c ns cns jsmc)) @ suf"
proof -
  obtain err cns' h where b: "processConsumer_body x c ns cns jsmc = (err, cns', h)"
    by (metis surj_pair)
  show ?thesis
    using assms b
    by (cases err)
      (auto simp add: processConsumer_def setConsumerErrored_def Let_def split: sum.splits)
qed

text \<open>
  C9. When the lister's Get fails for the key, \<^verbatim>\<open>processConsumer\<close> does nothing
  observable (no event, no backend call, no write). If the failure is NotFound it returns
  success; any other lister error is returned as a failure, wrapped.
\<close>

theorem processConsumer_absent_from_cache:
  "cnsLister_Get c ns name = Inl err \<Longrightarrow>
   processConsumer x c ns name jsmc =
     (if IsNotFound x err then (None, [])
      else (Some (Errorf_w ''failed to process consumer: '' err), []))"
  by (simp add: processConsumer_def)

theorem processConsumer_absent_from_cache_witness:
  "processConsumer testEnv (fakeController (testConsumer 1 0 None)) ''default'' ''other''
     (mockJsmClient None (Inr mockDeleter) None) = (None, [])"
  using processConsumer_absent_from_cache
    [of "fakeController (testConsumer 1 0 None)" "''default''" "''other''"
        "ErrorString ''not found''" testEnv "mockJsmClient None (Inr mockDeleter) None"]
  by (simp add: fixture_defs)

text \<open>
  C8. \<^verbatim>\<open>consumerExists\<close> makes one LoadConsumer call. It returns (false, nil) exactly when
  that call fails with an error in which \<^verbatim>\<open>errors.As\<close> finds an ApiError whose
  \<^verbatim>\<open>NotFoundError()\<close> holds; it returns (true, nil) when the call succeeds; every other
  error is returned with exists=false, wrapped with the context
  "failed to check if consumer exists", the original error still reachable.
\<close>

theorem consumerExists_outcomes:
  assumes "consumerExists c stream consumer h = ((ok, err), h')"
  shows "h' = h @ [LoadConsumerCalled stream consumer]
    \<and> ((\<not> ok \<and> err = None) =
          (\<exists>lerr. LoadConsumer c (loadCalls h) stream consumer = Inl lerr \<and> isApiNotFound lerr))
    \<and> ((ok \<and> err = None) = (\<exists>cn. LoadConsumer c (loadCalls h) stream consumer = Inr cn))
    \<and> (\<forall>lerr. LoadConsumer c (loadCalls h) stream consumer = Inl lerr \<and> \<not> isApiNotFound lerr
          \<longrightarrow> \<not> ok \<and> err = Some (Errorf_w ''failed to check if consumer exists: '' lerr)
              \<and> Error (the err) = ''failed to check if consumer exists: '' @ Error lerr
              \<and> errors_As_ApiError (the err) = errors_As_ApiError lerr)"
  using assms
  by (auto simp add: consumerExists_def Let_def Errorf_w_def split: sum.splits if_splits)

theorem consumerExists_outcomes_witness:
  "consumerExists (mockJsmClient None (Inl notFoundErr) None) ''s'' ''d'' [] =
     ((False, None), [LoadConsumerCalled ''s'' ''d''])
   \<and> consumerExists (mockJsmClient None (Inr mockDeleter) None) ''s'' ''d'' [] =
     ((True, None), [LoadConsumerCalled ''s'' ''d''])
   \<and> consumerExists (mockJsmClient None (Inl (ApiError 503 ''no responders'')) None)
       ''s'' ''d'' [] =
     ((False, Some (WrapError ''failed to check if consumer exists: no responders''
                      (ApiError 503 ''no responders''))),
      [LoadConsumerCalled ''s'' ''d''])"
proof -
  obtain ok1 err1 h1 where
    r1: "consumerExists (mockJsmClient None (Inl notFoundErr) None) ''s'' ''d'' []
           = ((ok1, err1), h1)"
    by (metis surj_pair)
  obtain ok2 err2 h2 where
    r2: "consumerExists (mockJsmClient None (Inr mockDeleter) None) ''s'' ''d'' []
           = ((ok2, err2), h2)"
    by (metis surj_pair)
  obtain ok3 err3 h3 where
    r3: "consumerExists (mockJsmClient None (Inl (ApiError 503 ''no responders'')) None)
           ''s'' ''d'' [] = ((ok3, err3), h3)"
    by (metis surj_pair)
  have "(ok1, err1) = (False, None) \<and> h1 = [LoadConsumerCalled ''s'' ''d'']"
    using consumerExists_outcomes [OF r1] by (simp add: fixture_defs)
  moreover have "(ok2, err2) = (True, None) \<and> h2 = [LoadConsumerCalled ''s'' ''d'']"
    using consumerExists_outcomes [OF r2] by (simp add: fixture_defs)
  moreover have "(ok3, err3) = (False, Some (WrapError
      ''failed to check if consumer exists: no responders'' (ApiError 503 ''no responders'')))
      \<and> h3 = [LoadConsumerCalled ''s'' ''d'']"
    using consumerExists_outcomes [OF r3] by (simp add: fixture_defs Errorf_w_def)
  ultimately show ?thesis
    using r1 r2 r3 by simp
qed

text \<open>
  C1. For a Consumer read from the cache with DeletionTimestamp set (credentials resolved,
  connection open, existence check not failing, the delete and the finalizer write
  succeeding), \<^verbatim>\<open>processConsumer\<close> loads the remote consumer again and deletes it, or, when
  that load reports NotFound, deletes nothing; then it writes the object with the finalizer
  token removed through Update, and returns success. Generation and ObservedGeneration play
  no part, and the trace has no status write.
\<close>

theorem processConsumer_delete:
  assumes "cnsLister_Get c ns name = Inr cns"
    and "DeletionTimestamp cns \<noteq> None"
    and "getCreds x (CredentialsSecretRef (Spec cns)) ns = Inr creds"
    and "Connect jsmc (strings_Join (Servers (Spec cns)) '','') (natsName c) creds = None"
    and "case LoadConsumer jsmc 0 (StreamName (Spec cns)) (DurableName (Spec cns)) of
           Inl err \<Rightarrow> isApiNotFound err | Inr cn \<Rightarrow> True"
    and "case LoadConsumer jsmc 1 (StreamName (Spec cns)) (DurableName (Spec cns)) of
           Inl err \<Rightarrow> isApiNotFound err | Inr cn \<Rightarrow> Delete cn = None"
    and "Update (ji_Consumers c ns)
           (cns\<lparr>Finalizers := removeFinalizer (Finalizers cns) (streamFinalizerKey x)\<rparr>) = Inr res"
  shows "processConsumer x c ns name jsmc =
    (None,
     [EventRecorded cns EventTypeNormal ''Connecting'' ''Connecting to NATS Server'',
      ConnectCalled (strings_Join (Servers (Spec cns)) '','') (natsName c) creds,
      EventRecorded cns EventTypeNormal ''Connected'' ''Connected to NATS Server'',
      LoadConsumerCalled (StreamName (Spec cns)) (DurableName (Spec cns)),
      EventRecorded cns EventTypeNormal ''Deleting''
        (''Deleting consumer '' @ fmt_q x (DurableName (Spec cns))
           @ '' on stream '' @ fmt_q x (StreamName (Spec cns))),
      LoadConsumerCalled (StreamName (Spec cns)) (DurableName (Spec cns))]
     @ (case LoadConsumer jsmc 1 (StreamName (Spec cns)) (DurableName (Spec cns)) of
          Inl err \<Rightarrow> [] | Inr cn \<Rightarrow> [DeleteCalled])
     @ [UpdateCalled
          (cns\<lparr>Finalizers := removeFinalizer (Finalizers cns) (streamFinalizerKey x)\<rparr>),
        CloseCalled])
    \<and> streamFinalizerKey x \<notin> set (removeFinalizer (Finalizers cns) (streamFinalizerKey x))"
  using assms
  by (auto simp add: reconciler_defs removeFinalizer_def split: sum.splits option.splits)

theorem processConsumer_delete_witness:
  "processConsumer testEnv
     (fakeController
        ((testConsumer 3 2 (Some 1600216923))\<lparr>Finalizers := [streamFinalizerKey testEnv]\<rparr>))
     ''default'' ''my-consumer'' (mockJsmClient None (Inr mockDeleter) None) =
    (None,
     [EventRecorded
        ((testConsumer 3 2 (Some 1600216923))\<lparr>Finalizers := [streamFinalizerKey testEnv]\<rparr>)
        EventTypeNormal ''Connecting'' ''Connecting to NATS Server'',
      ConnectCalled [] [] [],
      EventRecorded
        ((testConsumer 3 2 (Some 1600216923))\<lparr>Finalizers := [streamFinalizerKey testEnv]\<rparr>)
        EventTypeNormal ''Connected'' ''Connected to NATS Server'',
      LoadConsumerCalled [] ''my-consumer'',
      EventRecorded
        ((testConsumer 3 2 (Some 1600216923))\<lparr>Finalizers := [streamFinalizerKey testEnv]\<rparr>)
        EventTypeNormal ''Deleting''
        (''Deleting consumer '' @ fmt_q testEnv ''my-consumer''
           @ '' on stream '' @ fmt_q testEnv []),
      LoadConsumerCalled [] ''my-consumer'',
      DeleteCalled,
      UpdateCalled ((testConsumer 3 2 (Some 1600216923))\<lparr>Finalizers := []\<rparr>),
      CloseCalled])"
  using processConsumer_delete
    [where c = "fakeController
        ((testConsumer 3 2 (Some 1600216923))\<lparr>Finalizers := [streamFinalizerKey testEnv]\<rparr>)"
      and ns = "''default''" and name = "''my-consumer''"
      and cns = "(testConsumer 3 2 (Some 1600216923))\<lparr>Finalizers := [streamFinalizerKey testEnv]\<rparr>"
      and x = testEnv and creds = "[]"
      and jsmc = "mockJsmClient None (Inr mockDeleter) None"
      and res = "(testConsumer 3 2 (Some 1600216923))\<lparr>Finalizers := []\<rparr>"]
  by (simp add: fixture_defs removeFinalizer_def)

text \<open>
  C2. For a Consumer with DeletionTimestamp unset, Generation different from
  Status.ObservedGeneration and no remote consumer (LoadConsumer reports NotFound), with
  credentials resolved, the connection open and the calls succeeding, \<^verbatim>\<open>processConsumer\<close>
  creates the remote consumer through NewConsumer, writes the object with the finalizer
  token added through Update, then writes through UpdateStatus the object that Update
  returned, with Status.ObservedGeneration equal to its Generation and a Ready condition
  with Status=True and Reason=Created, and returns success.
\<close>

theorem processConsumer_create:
  assumes "cnsLister_Get c ns name = Inr cns"
    and "DeletionTimestamp cns = None"
    and "Generation cns \<noteq> ObservedGeneration (Status cns)"
    and "getCreds x (CredentialsSecretRef (Spec cns)) ns = Inr creds"
    and "Connect jsmc (strings_Join (Servers (Spec cns)) '','') (natsName c) creds = None"
    and "LoadConsumer jsmc 0 (StreamName (Spec cns)) (DurableName (Spec cns)) = Inl lerr"
    and "isApiNotFound lerr"
    and "NewConsumer jsmc (StreamName (Spec cns)) (DurableName (Spec cns)) = None"
    and "Update (ji_Consumers c ns)
           (cns\<lparr>Finalizers := addFinalizer (Finalizers cns) (streamFinalizerKey x)\<rparr>) = Inr res"
    and "sc = res\<lparr>Status := \<lparr>ObservedGeneration = Generation res,
            Conditions = upsertCondition (Conditions (Status res))
              \<lparr>Type = readyCondType, CondStatus = ConditionTrue,
               LastTransitionTime = time_Now x 0,
               Reason = ''Created'', Message = ''Consumer successfully created''\<rparr>\<rparr>\<rparr>"
    and "UpdateStatus (ji_Consumers c ns) 0 sc = Inr res'"
  shows "processConsumer x c ns name jsmc =
    (None,
     [EventRecorded cns EventTypeNormal ''Connecting'' ''Connecting to NATS Server'',
      ConnectCalled (strings_Join (Servers (Spec cns)) '','') (natsName c) creds,
      EventRecorded cns EventTypeNormal ''Connected'' ''Connected to NATS Server'',
      LoadConsumerCalled (StreamName (Spec cns)) (DurableName (Spec cns)),
      EventRecorded cns EventTypeNormal ''Creating''
        (''Creating consumer '' @ fmt_q x (DurableName (Spec cns))
           @ '' on stream '' @ fmt_q x (StreamName (Spec cns))),
      NewConsumerCalled (StreamName (Spec cns)) (DurableName (Spec cns)),
      UpdateCalled (cns\<lparr>Finalizers := addFinalizer (Finalizers cns) (streamFinalizerKey x)\<rparr>),
      UpdateStatusCalled sc,
      EventRecorded res EventTypeNormal ''Created''
        (''Created consumer '' @ fmt_q x (DurableName (Spec cns))
           @ '' on stream '' @ fmt_q x (StreamName (Spec cns))),
      CloseCalled])
    \<and> streamFinalizerKey x \<in> set (addFinalizer (Finalizers cns) (streamFinalizerKey x))
    \<and> ObservedGeneration (Status sc) = Generation sc
    \<and> \<lparr>Type = readyCondType, CondStatus = ConditionTrue, LastTransitionTime = time_Now x 0,
        Reason = ''Created'', Message = ''Consumer successfully created''\<rparr>
         \<in> set (Conditions (Status sc))"
  using assms
  by (auto simp add: reconciler_defs addFinalizer_def upsertCondition_member
      split: sum.splits option.splits)

theorem processConsumer_create_witness:
  "processConsumer testEnv (fakeController (testConsumer 1 0 None))
     ''default'' ''my-consumer'' (mockJsmClient None (Inl notFoundErr) None) =
    (None,
     [EventRecorded (testConsumer 1 0 None) EventTypeNormal
        ''Connecting'' ''Connecting to NATS Server'',
      ConnectCalled [] [] [],
      EventRecorded (testConsumer 1 0 None) EventTypeNormal
        ''Connected'' ''Connected to NATS Server'',
      LoadConsumerCalled [] ''my-consumer'',
      EventRecorded (testConsumer 1 0 None) EventTypeNormal ''Creating''
        (''Creating consumer '' @ fmt_q testEnv ''my-consumer''
           @ '' on stream '' @ fmt_q testEnv []),
      NewConsumerCalled [] ''my-consumer'',
      UpdateCalled ((testConsumer 1 0 None)
        \<lparr>Finalizers := [consumerFinalizerKey, streamFinalizerKey testEnv]\<rparr>),
      UpdateStatusCalled ((testConsumer 1 0 None)
        \<lparr>Finalizers := [consumerFinalizerKey, streamFinalizerKey testEnv],
         Status := \<lparr>ObservedGeneration = 1, Conditions =
           [\<lparr>Type = ''Ready'', CondStatus = ConditionTrue,
             LastTransitionTime = ''2020-09-16T00:42:03Z'',
             Reason = ''Created'', Message = ''Consumer successfully created''\<rparr>]\<rparr>\<rparr>),
      EventRecorded ((testConsumer 1 0 None)
        \<lparr>Finalizers := [consumerFinalizerKey, streamFinalizerKey testEnv]\<rparr>)
        EventTypeNormal ''Created''
        (''Created consumer '' @ fmt_q testEnv ''my-consumer''
           @ '' on stream '' @ fmt_q testEnv []),
      CloseCalled])"
  using processConsumer_create
    [where c = "fakeController (testConsumer 1 0 None)"
      and ns = "''default''" and name = "''my-consumer''"
      and cns = "testConsumer 1 0 None"
      and x = testEnv and creds = "[]" and lerr = notFoundErr
      and jsmc = "mockJsmClient None (Inl notFoundErr) None"
      and res = "(testConsumer 1 0 None)
        \<lparr>Finalizers := [consumerFinalizerKey, streamFinalizerKey testEnv]\<rparr>"
      and sc = "(testConsumer 1 0 None)
        \<lparr>Finalizers := [consumerFinalizerKey, streamFinalizerKey testEnv],
         Status := \<lparr>ObservedGeneration = 1, Conditions =
           [\<lparr>Type = ''Ready'', CondStatus = ConditionTrue,
             LastTransitionTime = ''2020-09-16T00:42:03Z'',
             Reason = ''Created'', Message = ''Consumer successfully created''\<rparr>]\<rparr>\<rparr>"
      and res' = "(testConsumer 1 0 None)
        \<lparr>Finalizers := [consumerFinalizerKey, streamFinalizerKey testEnv],
         Status := \<lparr>ObservedGeneration = 1, Conditions =
           [\<lparr>Type = ''Ready'', CondStatus = ConditionTrue,
             LastTransitionTime = ''2020-09-16T00:42:03Z'',
             Reason = ''Created'', Message = ''Consumer successfully created''\<rparr>]\<rparr>\<rparr>"]
  by (simp add: fixture_defs addFinalizer_def readyCondType_def)

text \<open>
  C3. For a Consumer that is not deleting, whose Generation differs from
  Status.ObservedGeneration and whose remote consumer exists (credentials resolved and the
  connection open), \<^verbatim>\<open>processConsumer\<close> does nothing to the backend beyond connecting, the
  existence check and closing, writes neither status nor finalizers (so
  Status.ObservedGeneration is not advanced), records exactly one Warning event, titled
  Updating, and returns success.
\<close>

theorem processConsumer_update:
  assumes "cnsLister_Get c ns name = Inr cns"
    and "DeletionTimestamp cns = None"
    and "Generation cns \<noteq> ObservedGeneration (Status cns)"
    and "getCreds x (CredentialsSecretRef (Spec cns)) ns = Inr creds"
    and "Connect jsmc (strings_Join (Servers (Spec cns)) '','') (natsName c) creds = None"
    and "LoadConsumer jsmc 0 (StreamName (Spec cns)) (DurableName (Spec cns)) = Inr cn"
  shows "processConsumer x c ns name jsmc =
    (None,
     [EventRecorded cns EventTypeNormal ''Connecting'' ''Connecting to NATS Server'',
      ConnectCalled (strings_Join (Servers (Spec cns)) '','') (natsName c) creds,
      EventRecorded cns EventTypeNormal ''Connected'' ''Connected to NATS Server'',
      LoadConsumerCalled (StreamName (Spec cns)) (DurableName (Spec cns)),
      EventRecorded cns EventTypeWarning ''Updating''
        (''Consumer updates ('' @ fmt_q x (DurableName (Spec cns)) @ '' on ''
           @ fmt_q x (StreamName (Spec cns)) @ '') are not allowed, recreate to update''),
      CloseCalled])"
  using assms
  by (auto simp add: reconciler_defs split: sum.splits option.splits)

theorem processConsumer_update_witness:
  "processConsumer testEnv (fakeController (testConsumer 2 1 None))
     ''default'' ''my-consumer'' (mockJsmClient None (Inr mockDeleter) None) =
    (None,
     [EventRecorded (testConsumer 2 1 None) EventTypeNormal
        ''Connecting'' ''Connecting to NATS Server'',
      ConnectCalled [] [] [],
      EventRecorded (testConsumer 2 1 None) EventTypeNormal
        ''Connected'' ''Connected to NATS Server'',
      LoadConsumerCalled [] ''my-consumer'',
      EventRecorded (testConsumer 2 1 None) EventTypeWarning ''Updating''
        (''Consumer updates ('' @ fmt_q testEnv ''my-consumer'' @ '' on ''
           @ fmt_q testEnv [] @ '') are not allowed, recreate to update''),
      CloseCalled])"
  using processConsumer_update
    [where c = "fakeController (testConsumer 2 1 None)"
      and ns = "''default''" and name = "''my-consumer''"
      and cns = "testConsumer 2 1 None"
      and x = testEnv and creds = "[]" and cn = mockDeleter
      and jsmc = "mockJsmClient None (Inr mockDeleter) None"]
  by (simp add: fixture_defs)

lemma processConsumer_error_path:
  assumes "cnsLister_Get c ns name = Inr cns"
    and "\<exists>h. processConsumer_body x c ns cns jsmc = (Some e, s, h)"
  shows "erroredOutcome x (ji_Consumers c ns) s e (processConsumer x c ns name jsmc)"
  using assms
  by (auto simp add: processConsumer_def setConsumerErrored_def erroredOutcome_def Let_def
      Errorf_w_def Errorf_s_w_def split: sum.splits)

text \<open>
  C4. Once the object is read, every failing step of \<^verbatim>\<open>processConsumer\<close> ends on the error
  path: the credential lookup, the connect, the existence check, the create, the finalizer
  write and the status write of the create branch, the load and the delete of the delete
  branch, and its finalizer write. The error the step returned (with the step's context)
  is what the Ready=False, Reason=Errored condition carries as Message in the status write
  that follows; the returned error is that error wrapped as "failed to process consumer",
  and a failure of the status write is merged into it: its text is appended to the
  returned text and the write's error stays on the unwrap chain.
\<close>

theorem processConsumer_failure_recorded:
  assumes "cnsLister_Get c ns name = Inr cns"
  shows
   "(getCreds x (CredentialsSecretRef (Spec cns)) ns = Inl failure \<longrightarrow>
       erroredOutcome x (ji_Consumers c ns) cns failure (processConsumer x c ns name jsmc))
    \<and> (getCreds x (CredentialsSecretRef (Spec cns)) ns = Inr creds \<longrightarrow>
        (Connect jsmc (strings_Join (Servers (Spec cns)) '','') (natsName c) creds = Some failure \<longrightarrow>
           erroredOutcome x (ji_Consumers c ns) cns failure (processConsumer x c ns name jsmc))
      \<and> (Connect jsmc (strings_Join (Servers (Spec cns)) '','') (natsName c) creds = None \<longrightarrow>
          (LoadConsumer jsmc 0 (StreamName (Spec cns)) (DurableName (Spec cns)) = Inl failure
             \<and> \<not> isApiNotFound failure \<longrightarrow>
             erroredOutcome x (ji_Consumers c ns) cns
               (Errorf_w ''failed to check if consumer exists: '' failure)
               (processConsumer x c ns name jsmc))
        \<and> (DeletionTimestamp cns = None
             \<and> Generation cns \<noteq> ObservedGeneration (Status cns)
             \<and> LoadConsumer jsmc 0 (StreamName (Spec cns)) (DurableName (Spec cns)) = Inl lerr
             \<and> isApiNotFound lerr \<longrightarrow>
            (NewConsumer jsmc (StreamName (Spec cns)) (DurableName (Spec cns)) = Some failure \<longrightarrow>
               erroredOutcome x (ji_Consumers c ns) cns
                 (Errorf_w (''failed to create consumer '' @ fmt_q x (DurableName (Spec cns))
                    @ '' on stream '' @ fmt_q x (StreamName (Spec cns)) @ '': '') failure)
                 (processConsumer x c ns name jsmc))
          \<and> (NewConsumer jsmc (StreamName (Spec cns)) (DurableName (Spec cns)) = None \<longrightarrow>
              (Update (ji_Consumers c ns)
                 (cns\<lparr>Finalizers := addFinalizer (Finalizers cns) (streamFinalizerKey x)\<rparr>)
                 = Inl failure \<longrightarrow>
                 erroredOutcome x (ji_Consumers c ns)
                   (cns\<lparr>Finalizers := addFinalizer (Finalizers cns) (streamFinalizerKey x)\<rparr>)
                   (Errorf_w (''failed to set finalizers for consumer ''
                      @ fmt_q x (DurableName (Spec cns)) @ '': '') failure)
                   (processConsumer x c ns name jsmc))
            \<and> (Update (ji_Consumers c ns)
                 (cns\<lparr>Finalizers := addFinalizer (Finalizers cns) (streamFinalizerKey x)\<rparr>)
                 = Inr res
               \<and> UpdateStatus (ji_Consumers c ns) 0
                   (res\<lparr>Status := \<lparr>ObservedGeneration = Generation res,
                      Conditions = upsertCondition (Conditions (Status res))
                        \<lparr>Type = readyCondType, CondStatus = ConditionTrue,
                         LastTransitionTime = time_Now x 0,
                         Reason = ''Created'',
                         Message = ''Consumer successfully created''\<rparr>\<rparr>\<rparr>) = Inl failure \<longrightarrow>
                 erroredOutcome x (ji_Consumers c ns) res
                   (Errorf_w (''failed to set consumer '' @ fmt_q x (DurableName (Spec res))
                      @ '' status: '') failure)
                   (processConsumer x c ns name jsmc))))
        \<and> (DeletionTimestamp cns \<noteq> None
             \<and> (case LoadConsumer jsmc 0 (StreamName (Spec cns)) (DurableName (Spec cns)) of
                  Inl err \<Rightarrow> isApiNotFound err | Inr cn0 \<Rightarrow> True) \<longrightarrow>
            (LoadConsumer jsmc 1 (StreamName (Spec cns)) (DurableName (Spec cns)) = Inl failure
               \<and> \<not> isApiNotFound failure \<longrightarrow>
               erroredOutcome x (ji_Consumers c ns) cns
                 (Errorf_w (''failed to delete consumer '' @ fmt_q x (DurableName (Spec cns))
                    @ '' on stream '' @ fmt_q x (StreamName (Spec cns)) @ '': '') failure)
                 (processConsumer x c ns name jsmc))
          \<and> (LoadConsumer jsmc 1 (StreamName (Spec cns)) (DurableName (Spec cns)) = Inr cn
               \<and> Delete cn = Some failure \<longrightarrow>
               erroredOutcome x (ji_Consumers c ns) cns
                 (Errorf_w (''failed to delete consumer '' @ fmt_q x (DurableName (Spec cns))
                    @ '' on stream '' @ fmt_q x (StreamName (Spec cns)) @ '': '') failure)
                 (processConsumer x c ns name jsmc))
          \<and> ((case LoadConsumer jsmc 1 (StreamName (Spec cns)) (DurableName (Spec cns)) of
                  Inl err \<Rightarrow> isApiNotFound err | Inr cn1 \<Rightarrow> Delete cn1 = None)
               \<and> Update (ji_Consumers c ns)
                   (cns\<lparr>Finalizers := removeFinalizer (Finalizers cns) (streamFinalizerKey x)\<rparr>)
                   = Inl failure \<longrightarrow>
               erroredOutcome x (ji_Consumers c ns)
                 (cns\<lparr>Finalizers := removeFinalizer (Finalizers cns) (streamFinalizerKey x)\<rparr>)
                 (Errorf_w (''failed to clear finalizers for consumer ''
                    @ fmt_q x (DurableName (Spec cns)) @ '': '') failure)
                 (processConsumer x c ns name jsmc)))))"
proof -
  note path = processConsumer_error_path [OF assms, of x jsmc]
  note steps = processConsumer_body_def processConsumer_switch_def consumerExists_def
    createConsumer_def deleteConsumer_def setConsumerFinalizer_def clearConsumerFinalizer_def
    setConsumerOK_def loadCalls_def statusCalls_def Let_def
  show ?thesis
  proof (intro conjI impI; (elim conjE)?)
    assume "getCreds x (CredentialsSecretRef (Spec cns)) ns = Inl failure"
    then show "erroredOutcome x (ji_Consumers c ns) cns failure (processConsumer x c ns name jsmc)"
      by (intro path) (simp add: steps)
  next
    assume "getCreds x (CredentialsSecretRef (Spec cns)) ns = Inr creds"
      "Connect jsmc (strings_Join (Servers (Spec cns)) '','') (natsName c) creds = Some failure"
    then show "erroredOutcome x (ji_Consumers c ns) cns failure (processConsumer x c ns name jsmc)"
      by (intro path) (simp add: steps)
  next
    assume "getCreds x (CredentialsSecretRef (Spec cns)) ns = Inr creds"
      "Connect jsmc (strings_Join (Servers (Spec cns)) '','') (natsName c) creds = None"
      "LoadConsumer jsmc 0 (StreamName (Spec cns)) (DurableName (Spec cns)) = Inl failure"
      "\<not> isApiNotFound failure"
    then show "erroredOutcome x (ji_Consumers c ns) cns
               (Errorf_w ''failed to check if consumer exists: '' failure)
               (processConsumer x c ns name jsmc)"
      by (intro path) (simp add: steps)
  next
    assume "getCreds x (CredentialsSecretRef (Spec cns)) ns = Inr creds"
      "Connect jsmc (strings_Join (Servers (Spec cns)) '','') (natsName c) creds = None"
      "DeletionTimestamp cns = None" "Generation cns \<noteq> ObservedGeneration (Status cns)"
      "LoadConsumer jsmc 0 (StreamName (Spec cns)) (DurableName (Spec cns)) = Inl lerr"
      "isApiNotFound lerr"
      "NewConsumer jsmc (StreamName (Spec cns)) (DurableName (Spec cns)) = Some failure"
    then show "erroredOutcome x (ji_Consumers c ns) cns
                 (Errorf_w (''failed to create consumer '' @ fmt_q x (DurableName (Spec cns))
                    @ '' on stream '' @ fmt_q x (StreamName (Spec cns)) @ '': '') failure)
                 (processConsumer x c ns name jsmc)"
      by (intro path) (simp add: steps)
  next
    assume "getCreds x (CredentialsSecretRef (Spec cns)) ns = Inr creds"
      "Connect jsmc (strings_Join (Servers (Spec cns)) '','') (natsName c) creds = None"
      "DeletionTimestamp cns = None" "Generation cns \<noteq> ObservedGeneration (Status cns)"
      "LoadConsumer jsmc 0 (StreamName (Spec cns)) (DurableName (Spec cns)) = Inl lerr"
      "isApiNotFound lerr"
      "NewConsumer jsmc (StreamName (Spec cns)) (DurableName (Spec cns)) = None"
      "Update (ji_Consumers c ns)
         (cns\<lparr>Finalizers := addFinalizer (Finalizers cns) (streamFinalizerKey x)\<rparr>) = Inl failure"
    then show "erroredOutcome x (ji_Consumers c ns)
                   (cns\<lparr>Finalizers := addFinalizer (Finalizers cns) (streamFinalizerKey x)\<rparr>)
                   (Errorf_w (''failed to set finalizers for consumer ''
                      @ fmt_q x (DurableName (Spec cns)) @ '': '') failure)
                   (processConsumer x c ns name jsmc)"
      by (intro path) (simp add: steps)
  next
    assume "getCreds x (CredentialsSecretRef (Spec cns)) ns = Inr creds"
      "Connect jsmc (strings_Join (Servers (Spec cns)) '','') (natsName c) creds = None"
      "DeletionTimestamp cns = None" "Generation cns \<noteq> ObservedGeneration (Status cns)"
      "LoadConsumer jsmc 0 (StreamName (Spec cns)) (DurableName (Spec cns)) = Inl lerr"
      "isApiNotFound lerr"
      "NewConsumer jsmc (StreamName (Spec cns)) (DurableName (Spec cns)) = None"
      "Update (ji_Consumers c ns)
         (cns\<lparr>Finalizers := addFinalizer (Finalizers cns) (streamFinalizerKey x)\<rparr>) = Inr res"
      "UpdateStatus (ji_Consumers c ns) 0
         (res\<lparr>Status := \<lparr>ObservedGeneration = Generation res,
            Conditions = upsertCondition (Conditions (Status res))
              \<lparr>Type = readyCondType, CondStatus = ConditionTrue,
               LastTransitionTime = time_Now x 0,
               Reason = ''Created'',
               Message = ''Consumer successfully created''\<rparr>\<rparr>\<rparr>) = Inl failure"
    then show "erroredOutcome x (ji_Consumers c ns) res
                   (Errorf_w (''failed to set consumer '' @ fmt_q x (DurableName (Spec res))
                      @ '' status: '') failure)
                   (processConsumer x c ns name jsmc)"
      by (intro path) (simp add: steps)
  next
    assume "getCreds x (CredentialsSecretRef (Spec cns)) ns = Inr creds"
      "Connect jsmc (strings_Join (Servers (Spec cns)) '','') (natsName c) creds = None"
      "DeletionTimestamp cns \<noteq> None"
      "case LoadConsumer jsmc 0 (StreamName (Spec cns)) (DurableName (Spec cns)) of
         Inl err \<Rightarrow> isApiNotFound err | Inr cn0 \<Rightarrow> True"
      "LoadConsumer jsmc 1 (StreamName (Spec cns)) (DurableName (Spec cns)) = Inl failure"
      "\<not> isApiNotFound failure"
    then show "erroredOutcome x (ji_Consumers c ns) cns
                 (Errorf_w (''failed to delete consumer '' @ fmt_q x (DurableName (Spec cns))
                    @ '' on stream '' @ fmt_q x (StreamName (Spec cns)) @ '': '') failure)
                 (processConsumer x c ns name jsmc)"
      by (intro path) (auto simp add: steps split: sum.splits)
  next
    assume "getCreds x (CredentialsSecretRef (Spec cns)) ns = Inr creds"
      "Connect jsmc (strings_Join (Servers (Spec cns)) '','') (natsName c) creds = None"
      "DeletionTimestamp cns \<noteq> None"
      "case LoadConsumer jsmc 0 (StreamName (Spec cns)) (DurableName (Spec cns)) of
         Inl err \<Rightarrow> isApiNotFound err | Inr cn0 \<Rightarrow> True"
      "LoadConsumer jsmc 1 (StreamName (Spec cns)) (DurableName (Spec cns)) = Inr cn"
      "Delete cn = Some failure"
    then show "erroredOutcome x (ji_Consumers c ns) cns
                 (Errorf_w (''failed to delete consumer '' @ fmt_q x (DurableName (Spec cns))
                    @ '' on stream '' @ fmt_q x (StreamName (Spec cns)) @ '': '') failure)
                 (processConsumer x c ns name jsmc)"
      by (intro path) (auto simp add: steps split: sum.splits)
  next
    assume "getCreds x (CredentialsSecretRef (Spec cns)) ns = Inr creds"
      "Connect jsmc (strings_Join (Servers (Spec cns)) '','') (natsName c) creds = None"
      "DeletionTimestamp cns \<noteq> None"
      "case LoadConsumer jsmc 0 (StreamName (Spec cns)) (DurableName (Spec cns)) of
         Inl err \<Rightarrow> isApiNotFound err | Inr cn0 \<Rightarrow> True"
      "case LoadConsumer jsmc 1 (StreamName (Spec cns)) (DurableName (Spec cns)) of
         Inl err \<Rightarrow> isApiNotFound err | Inr cn1 \<Rightarrow> Delete cn1 = None"
      "Update (ji_Consumers c ns)
         (cns\<lparr>Finalizers := removeFinalizer (Finalizers cns) (streamFinalizerKey x)\<rparr>) = Inl failure"
    then show "erroredOutcome x (ji_Consumers c ns)
                 (cns\<lparr>Finalizers := removeFinalizer (Finalizers cns) (streamFinalizerKey x)\<rparr>)
                 (Errorf_w (''failed to clear finalizers for consumer ''
                    @ fmt_q x (DurableName (Spec cns)) @ '': '') failure)
                 (processConsumer x c ns name jsmc)"
      by (intro path) (auto simp add: steps split: sum.splits)
  qed
qed

theorem processConsumer_failure_recorded_witness:
  "processConsumer testEnv (fakeController (testConsumer 1 0 None))
          ''default'' ''my-consumer''
          (mockJsmClient (Some (ErrorString ''nats connect failed'')) (Inr mockDeleter) None)
     = (Some (WrapError ''failed to process consumer: nats connect failed''
               (ErrorString ''nats connect failed'')),
        [EventRecorded (testConsumer 1 0 None) EventTypeNormal
           ''Connecting'' ''Connecting to NATS Server'',
         ConnectCalled [] [] [],
         UpdateStatusCalled ((testConsumer 1 0 None)
           \<lparr>Status := \<lparr>ObservedGeneration = 0, Conditions =
              [\<lparr>Type = ''Ready'', CondStatus = ConditionFalse,
                LastTransitionTime = ''2020-09-16T00:42:03Z'',
                Reason = ''Errored'', Message = ''nats connect failed''\<rparr>]\<rparr>\<rparr>)])
   \<and> fst (processConsumer testEnv (rejectingController (testConsumer 1 0 None))
          ''default'' ''my-consumer''
          (mockJsmClient (Some (ErrorString ''nats connect failed'')) (Inr mockDeleter) None))
     = Some (WrapError
         ''failed to process consumer: nats connect failed: failed to set consumer errored status: conflict''
         (WrapError
            ''nats connect failed: failed to set consumer errored status: conflict''
            (WrapError ''failed to set consumer errored status: conflict''
               (ErrorString ''conflict''))))
   \<and> last (snd (processConsumer testEnv (rejectingController (testConsumer 1 0 None))
          ''default'' ''my-consumer''
          (mockJsmClient (Some (ErrorString ''nats connect failed'')) (Inr mockDeleter) None)))
     = UpdateStatusCalled ((testConsumer 1 0 None)
         \<lparr>Status := \<lparr>ObservedGeneration = 0, Conditions =
            [\<lparr>Type = ''Ready'', CondStatus = ConditionFalse,
              LastTransitionTime = ''2020-09-16T00:42:03Z'',
              Reason = ''Errored'', Message = ''nats connect failed''\<rparr>]\<rparr>\<rparr>)"
proof -
  let ?jsmc = "mockJsmClient (Some (ErrorString ''nats connect failed''))
                 (Inr mockDeleter) None"
  let ?written = "UpdateStatusCalled ((testConsumer 1 0 None)
         \<lparr>Status := \<lparr>ObservedGeneration = 0, Conditions =
            [\<lparr>Type = ''Ready'', CondStatus = ConditionFalse,
              LastTransitionTime = ''2020-09-16T00:42:03Z'',
              Reason = ''Errored'', Message = ''nats connect failed''\<rparr>]\<rparr>\<rparr>)"
  obtain r tr where
    run: "processConsumer testEnv (fakeController (testConsumer 1 0 None))
            ''default'' ''my-consumer'' ?jsmc = (r, tr)"
    by (metis surj_pair)
  obtain r' tr' where
    run': "processConsumer testEnv (rejectingController (testConsumer 1 0 None))
            ''default'' ''my-consumer'' ?jsmc = (r', tr')"
    by (metis surj_pair)
  have "erroredOutcome testEnv updateObject (testConsumer 1 0 None)
          (ErrorString ''nats connect failed'') (r, tr)"
    using processConsumer_failure_recorded
      [where c = "fakeController (testConsumer 1 0 None)"
        and ns = "''default''" and name = "''my-consumer''"
        and cns = "testConsumer 1 0 None" and x = testEnv and creds = "[]"
        and failure = "ErrorString ''nats connect failed''" and jsmc = ?jsmc]
      run
    by (simp add: fakeController_def testConsumer_def testEnv_def mockJsmClient_def)
  then have first: "r = Some (WrapError ''failed to process consumer: nats connect failed''
               (ErrorString ''nats connect failed'')) \<and> last tr = ?written"
    by (simp add: erroredOutcome_def Let_def readyCondType_def
        testConsumer_def testEnv_def updateObject_def)
  have "erroredOutcome testEnv rejectingStore (testConsumer 1 0 None)
          (ErrorString ''nats connect failed'') (r', tr')"
    using processConsumer_failure_recorded
      [where c = "rejectingController (testConsumer 1 0 None)"
        and ns = "''default''" and name = "''my-consumer''"
        and cns = "testConsumer 1 0 None" and x = testEnv and creds = "[]"
        and failure = "ErrorString ''nats connect failed''" and jsmc = ?jsmc]
      run'
    by (simp add: rejectingController_def fakeController_def testConsumer_def testEnv_def
        mockJsmClient_def)
  then have second: "r' = Some (WrapError
         ''failed to process consumer: nats connect failed: failed to set consumer errored status: conflict''
         (WrapError
            ''nats connect failed: failed to set consumer errored status: conflict''
            (WrapError ''failed to set consumer errored status: conflict''
               (ErrorString ''conflict'')))) \<and> last tr' = ?written"
    by (simp add: erroredOutcome_def Let_def readyCondType_def
        testConsumer_def testEnv_def rejectingStore_def)
  have whole: "tr = [EventRecorded (testConsumer 1 0 None) EventTypeNormal
           ''Connecting'' ''Connecting to NATS Server'',
         ConnectCalled [] [] [], ?written]"
    using run by (simp add: reconciler_defs fixture_defs readyCondType_def)
  show ?thesis
    using first second whole run run' by simp
qed

text \<open>
  C5. With the object read, credentials resolved, the connection open and the existence
  check not failing, \<^verbatim>\<open>processConsumer\<close> acts by this classification: it starts the delete
  (Deleting event, then the load of \<^verbatim>\<open>deleteConsumer\<close>) whenever DeletionTimestamp is set,
  whatever the generations; otherwise, when Generation differs from
  Status.ObservedGeneration, it starts the create (Creating event, then NewConsumer) if the
  remote consumer is absent and takes the update branch (one Updating warning) if it
  exists; in the remaining case it records a Noop warning, changes nothing in the backend
  or the store, and returns success.
\<close>

theorem processConsumer_classification:
  assumes "cnsLister_Get c ns name = Inr cns"
    and "getCreds x (CredentialsSecretRef (Spec cns)) ns = Inr creds"
    and "Connect jsmc (strings_Join (Servers (Spec cns)) '','') (natsName c) creds = None"
    and "case LoadConsumer jsmc 0 (StreamName (Spec cns)) (DurableName (Spec cns)) of
           Inl err \<Rightarrow> isApiNotFound err | Inr cn \<Rightarrow> True"
    and "processConsumer x c ns name jsmc = (r, tr)"
  shows "take 4 tr =
     [EventRecorded cns EventTypeNormal ''Connecting'' ''Connecting to NATS Server'',
      ConnectCalled (strings_Join (Servers (Spec cns)) '','') (natsName c) creds,
      EventRecorded cns EventTypeNormal ''Connected'' ''Connected to NATS Server'',
      LoadConsumerCalled (StreamName (Spec cns)) (DurableName (Spec cns))]
    \<and> (if DeletionTimestamp cns \<noteq> None then
          take 2 (drop 4 tr) =
            [EventRecorded cns EventTypeNormal ''Deleting''
               (''Deleting consumer '' @ fmt_q x (DurableName (Spec cns))
                  @ '' on stream '' @ fmt_q x (StreamName (Spec cns))),
             LoadConsumerCalled (StreamName (Spec cns)) (DurableName (Spec cns))]
        else if Generation cns \<noteq> ObservedGeneration (Status cns) then
          (case LoadConsumer jsmc 0 (StreamName (Spec cns)) (DurableName (Spec cns)) of
             Inl err \<Rightarrow>
               take 2 (drop 4 tr) =
                 [EventRecorded cns EventTypeNormal ''Creating''
                    (''Creating consumer '' @ fmt_q x (DurableName (Spec cns))
                       @ '' on stream '' @ fmt_q x (StreamName (Spec cns))),
                  NewConsumerCalled (StreamName (Spec cns)) (DurableName (Spec cns))]
           | Inr cn \<Rightarrow>
               r = None \<and> drop 4 tr =
                 [EventRecorded cns EventTypeWarning ''Updating''
                    (''Consumer updates ('' @ fmt_q x (DurableName (Spec cns)) @ '' on ''
                       @ fmt_q x (StreamName (Spec cns))
                       @ '') are not allowed, recreate to update''),
                  CloseCalled])
        else
          r = None \<and> drop 4 tr =
            [EventRecorded cns EventTypeWarning ''Noop''
               (''Nothing done for consumer '' @ fmt_q x (DurableName (Spec cns))),
             CloseCalled])"
proof -
  let ?s = "StreamName (Spec cns)" and ?d = "DurableName (Spec cns)"
  let ?h1 = "[EventRecorded cns EventTypeNormal ''Connecting'' ''Connecting to NATS Server'',
      ConnectCalled (strings_Join (Servers (Spec cns)) '','') (natsName c) creds,
      EventRecorded cns EventTypeNormal ''Connected'' ''Connected to NATS Server'']"
  let ?ifc = "ji_Consumers c ns"
  let ?ok = "case LoadConsumer jsmc 0 ?s ?d of Inl err \<Rightarrow> False | Inr cn \<Rightarrow> True"
  have ce: "fst (consumerExists jsmc ?s ?d ?h1) = (?ok, None)"
    using assms(4) by (auto simp add: consumerExists_def loadCalls_def Let_def split: sum.splits)
  have body: "processConsumer_body x c ns cns jsmc =
      (case processConsumer_switch x c ?ifc cns jsmc ?h1 of
         (err, cns', h2) \<Rightarrow> (err, cns', h2 @ [CloseCalled]))"
    using assms(2,3) by (rule processConsumer_body_connected)
  obtain serr cns' h2 where sw: "processConsumer_switch x c ?ifc cns jsmc ?h1 = (serr, cns', h2)"
    by (metis surj_pair)
  have body': "processConsumer_body x c ns cns jsmc = (serr, cns', h2 @ [CloseCalled])"
    using body sw by simp
  obtain suf where tr: "tr = h2 @ [CloseCalled] @ suf"
    using processConsumer_extends_body [OF assms(1), of x jsmc] body' assms(5) by auto
  show ?thesis
  proof (cases "DeletionTimestamp cns \<noteq> None")
    case True
    obtain suf' where "h2 = ?h1 @ [LoadConsumerCalled ?s ?d,
          EventRecorded cns EventTypeNormal ''Deleting''
            (''Deleting consumer '' @ fmt_q x ?d @ '' on stream '' @ fmt_q x ?s),
          LoadConsumerCalled ?s ?d] @ suf'"
      using processConsumer_switch_delete_trace [OF True ce, of x c ?ifc] sw by auto
    with True tr show ?thesis by simp
  next
    case notDeleting: False
    show ?thesis
    proof (cases "Generation cns \<noteq> ObservedGeneration (Status cns)")
      case changed: True
      show ?thesis
      proof (cases "LoadConsumer jsmc 0 ?s ?d")
        case (Inl lerr)
        with ce have ce': "fst (consumerExists jsmc ?s ?d ?h1) = (False, None)" by simp
        obtain suf' where "h2 = ?h1 @ [LoadConsumerCalled ?s ?d,
            EventRecorded cns EventTypeNormal ''Creating''
              (''Creating consumer '' @ fmt_q x ?d @ '' on stream '' @ fmt_q x ?s),
            NewConsumerCalled ?s ?d] @ suf'"
          using processConsumer_switch_create_trace [OF _ changed ce', of x c ?ifc]
            notDeleting sw by auto
        with notDeleting changed Inl tr show ?thesis by simp
      next
        case (Inr cn)
        with ce have ce': "fst (consumerExists jsmc ?s ?d ?h1) = (True, None)" by simp
        have "processConsumer_body x c ns cns jsmc =
            (None, cns, ?h1 @ [LoadConsumerCalled ?s ?d,
               EventRecorded cns EventTypeWarning ''Updating''
                 (''Consumer updates ('' @ fmt_q x ?d @ '' on '' @ fmt_q x ?s
                    @ '') are not allowed, recreate to update'')] @ [CloseCalled])"
          using processConsumer_switch_update [OF _ changed ce', of x c ?ifc]
            notDeleting body by simp
        from processConsumer_success [OF assms(1) this] assms(5) notDeleting changed Inr
        show ?thesis by simp
      qed
    next
      case unchanged: False
      have "processConsumer_body x c ns cns jsmc =
          (None, cns, ?h1 @ [LoadConsumerCalled ?s ?d,
             EventRecorded cns EventTypeWarning ''Noop''
               (''Nothing done for consumer '' @ fmt_q x ?d)] @ [CloseCalled])"
        using processConsumer_switch_noop [OF _ _ ce, of x c ?ifc]
          notDeleting unchanged body by simp
      from processConsumer_success [OF assms(1) this] assms(5) notDeleting unchanged
      show ?thesis by simp
    qed
  qed
qed

theorem processConsumer_classification_witness:
  "processConsumer testEnv (fakeController (testConsumer 1 1 None))
     ''default'' ''my-consumer'' (mockJsmClient None (Inr mockDeleter) None) =
    (None,
     [EventRecorded (testConsumer 1 1 None) EventTypeNormal
        ''Connecting'' ''Connecting to NATS Server'',
      ConnectCalled [] [] [],
      EventRecorded (testConsumer 1 1 None) EventTypeNormal
        ''Connected'' ''Connected to NATS Server'',
      LoadConsumerCalled [] ''my-consumer'',
      EventRecorded (testConsumer 1 1 None) EventTypeWarning ''Noop''
        (''Nothing done for consumer '' @ fmt_q testEnv ''my-consumer''),
      CloseCalled])"
proof -
  obtain r tr where
    run: "processConsumer testEnv (fakeController (testConsumer 1 1 None))
            ''default'' ''my-consumer'' (mockJsmClient None (Inr mockDeleter) None) = (r, tr)"
    by (metis surj_pair)
  have "r = None \<and> take 4 tr @ drop 4 tr =
     [EventRecorded (testConsumer 1 1 None) EventTypeNormal
        ''Connecting'' ''Connecting to NATS Server'',
      ConnectCalled [] [] [],
      EventRecorded (testConsumer 1 1 None) EventTypeNormal
        ''Connected'' ''Connected to NATS Server'',
      LoadConsumerCalled [] ''my-consumer'',
      EventRecorded (testConsumer 1 1 None) EventTypeWarning ''Noop''
        (''Nothing done for consumer '' @ fmt_q testEnv ''my-consumer''),
      CloseCalled]"
    using processConsumer_classification
      [where c = "fakeController (testConsumer 1 1 None)"
        and ns = "''default''" and name = "''my-consumer''"
        and cns = "testConsumer 1 1 None" and x = testEnv and creds = "[]"
        and jsmc = "mockJsmClient None (Inr mockDeleter) None", OF _ _ _ _ run]
    by (simp add: fixture_defs)
  then show ?thesis
    using run by simp
qed

subsection \<open>The finalizer token and the remote consumer\<close>









subsection \<open>Which token the finalizer writes carry\<close>

lemma processConsumer_switch_updates:
  assumes "UpdateCalled obj \<in> set (snd (snd (processConsumer_switch x c ifc cns jsmc h)))"
  shows "UpdateCalled obj \<in> set h
    \<or> (obj = cns\<lparr>Finalizers := addFinalizer (Finalizers cns) (streamFinalizerKey x)\<rparr>
         \<and> DeletionTimestamp cns = None)
    \<or> (obj = cns\<lparr>Finalizers := removeFinalizer (Finalizers cns) (streamFinalizerKey x)\<rparr>
         \<and> DeletionTimestamp cns \<noteq> None)"
  using assms
  by (auto simp add: processConsumer_switch_def consumerExists_def createConsumer_def
      deleteConsumer_def setConsumerFinalizer_def clearConsumerFinalizer_def setConsumerOK_def
      Let_def split: sum.splits option.splits if_splits)

lemma processConsumer_updates:
  assumes "cnsLister_Get c ns name = Inr cns"
    and "UpdateCalled obj \<in> set (snd (processConsumer x c ns name jsmc))"
  shows "(obj = cns\<lparr>Finalizers := addFinalizer (Finalizers cns) (streamFinalizerKey x)\<rparr>
         \<and> DeletionTimestamp cns = None)
    \<or> (obj = cns\<lparr>Finalizers := removeFinalizer (Finalizers cns) (streamFinalizerKey x)\<rparr>
         \<and> DeletionTimestamp cns \<noteq> None)"
proof (cases "getCreds x (CredentialsSecretRef (Spec cns)) ns")
  case (Inl err)
  with assms show ?thesis
    by (simp add: processConsumer_def processConsumer_body_def setConsumerErrored_def Let_def
        split: sum.splits)
next
  case (Inr creds)
  show ?thesis
  proof (cases "Connect jsmc (strings_Join (Servers (Spec cns)) '','') (natsName c) creds")
    case (Some err)
    with assms Inr show ?thesis
      by (simp add: processConsumer_def processConsumer_body_def setConsumerErrored_def Let_def
          split: sum.splits)
  next
    case None
    let ?h1 = "[EventRecorded cns EventTypeNormal ''Connecting'' ''Connecting to NATS Server'',
      ConnectCalled (strings_Join (Servers (Spec cns)) '','') (natsName c) creds,
      EventRecorded cns EventTypeNormal ''Connected'' ''Connected to NATS Server'']"
    obtain serr cns' h2 where
      sw: "processConsumer_switch x c (ji_Consumers c ns) cns jsmc ?h1 = (serr, cns', h2)"
      by (metis surj_pair)
    have body: "processConsumer_body x c ns cns jsmc = (serr, cns', h2 @ [CloseCalled])"
      using processConsumer_body_connected [OF Inr None] sw by simp
    have "UpdateCalled obj \<in> set h2"
      using assms body
      by (cases serr)
        (auto simp add: processConsumer_def setConsumerErrored_def Let_def split: sum.splits)
    then show ?thesis
      using processConsumer_switch_updates [of obj x c "ji_Consumers c ns" cns jsmc ?h1] sw
      by simp
  qed
qed

text \<open>
  C7. \<^verbatim>\<open>setConsumerFinalizer\<close> adds and \<^verbatim>\<open>clearConsumerFinalizer\<close> removes the same token,
  \<^verbatim>\<open>streamFinalizerKey\<close>, so what the create path adds the delete path removes. Every Update
  write of \<^verbatim>\<open>processConsumer\<close> carries the object read with that token added (not deleting)
  or removed (deleting). With \<^verbatim>\<open>streamFinalizerKey\<close> different from the declared
  \<^verbatim>\<open>consumerFinalizerKey\<close>, the occurrences of \<^verbatim>\<open>consumerFinalizerKey\<close> are the same before
  and after, and an object carrying only \<^verbatim>\<open>consumerFinalizerKey\<close> keeps it after a delete
  reconciliation.
\<close>

theorem consumer_finalizer_token:
  assumes "streamFinalizerKey x \<noteq> consumerFinalizerKey"
    and "cnsLister_Get c ns name = Inr cns"
    and "processConsumer x c ns name jsmc = (r, tr)"
    and "UpdateCalled obj \<in> set tr"
  shows "fst (snd (setConsumerFinalizer x s i h))
      = s\<lparr>Finalizers := addFinalizer (Finalizers s) (streamFinalizerKey x)\<rparr>
    \<and> fst (snd (clearConsumerFinalizer x s i h))
      = s\<lparr>Finalizers := removeFinalizer (Finalizers s) (streamFinalizerKey x)\<rparr>
    \<and> streamFinalizerKey x
        \<notin> set (removeFinalizer (addFinalizer (Finalizers s) (streamFinalizerKey x))
                 (streamFinalizerKey x))
    \<and> obj = (if DeletionTimestamp cns = None
              then cns\<lparr>Finalizers := addFinalizer (Finalizers cns) (streamFinalizerKey x)\<rparr>
              else cns\<lparr>Finalizers := removeFinalizer (Finalizers cns) (streamFinalizerKey x)\<rparr>)
    \<and> filter (\<lambda>f. f = consumerFinalizerKey) (Finalizers obj)
        = filter (\<lambda>f. f = consumerFinalizerKey) (Finalizers cns)
    \<and> (if DeletionTimestamp cns \<noteq> None \<and> Finalizers cns = [consumerFinalizerKey]
        then Finalizers obj = [consumerFinalizerKey] else True)"
proof -
  have fns: "fst (snd (setConsumerFinalizer x s i h))
      = s\<lparr>Finalizers := addFinalizer (Finalizers s) (streamFinalizerKey x)\<rparr>
    \<and> fst (snd (clearConsumerFinalizer x s i h))
      = s\<lparr>Finalizers := removeFinalizer (Finalizers s) (streamFinalizerKey x)\<rparr>"
    by (simp add: setConsumerFinalizer_def clearConsumerFinalizer_def Let_def split: sum.splits)
  have cancel: "streamFinalizerKey x
        \<notin> set (removeFinalizer (addFinalizer (Finalizers s) (streamFinalizerKey x))
                 (streamFinalizerKey x))"
    by (simp add: removeFinalizer_def)
  have obj: "(obj = cns\<lparr>Finalizers := addFinalizer (Finalizers cns) (streamFinalizerKey x)\<rparr>
         \<and> DeletionTimestamp cns = None)
    \<or> (obj = cns\<lparr>Finalizers := removeFinalizer (Finalizers cns) (streamFinalizerKey x)\<rparr>
         \<and> DeletionTimestamp cns \<noteq> None)"
    using processConsumer_updates [OF assms(2), of obj x jsmc] assms(3,4) by simp
  have keep: "filter (\<lambda>f. f = consumerFinalizerKey) (addFinalizer fs (streamFinalizerKey x))
        = filter (\<lambda>f. f = consumerFinalizerKey) fs
      \<and> filter (\<lambda>f. f = consumerFinalizerKey) (removeFinalizer fs (streamFinalizerKey x))
        = filter (\<lambda>f. f = consumerFinalizerKey) fs" for fs
    using assms(1)
    by (auto simp add: addFinalizer_def removeFinalizer_def intro: filter_cong)
  have only: "removeFinalizer [consumerFinalizerKey] (streamFinalizerKey x)
      = [consumerFinalizerKey]"
    using assms(1) by (simp add: removeFinalizer_def)
  show ?thesis
    using fns cancel obj keep [of "Finalizers cns"] only by auto
qed

theorem consumer_finalizer_token_witness:
  "UpdateCalled (testConsumer 0 0 (Some 1600216923))
     \<in> set (snd (processConsumer testEnv (fakeController (testConsumer 0 0 (Some 1600216923)))
          ''default'' ''my-consumer'' (mockJsmClient None (Inr mockDeleter) None)))
   \<and> Finalizers (testConsumer 0 0 (Some 1600216923)) = [consumerFinalizerKey]"
proof -
  let ?cns = "testConsumer 0 0 (Some 1600216923)"
  have differ: "streamFinalizerKey testEnv \<noteq> consumerFinalizerKey"
    by (simp add: fixture_defs)
  have get: "cnsLister_Get (fakeController ?cns) ''default'' ''my-consumer'' = Inr ?cns"
    by (simp add: fixture_defs)
  have run: "processConsumer testEnv (fakeController ?cns)
      ''default'' ''my-consumer'' (mockJsmClient None (Inr mockDeleter) None) =
    (None,
     [EventRecorded ?cns EventTypeNormal ''Connecting'' ''Connecting to NATS Server'',
      ConnectCalled [] [] [],
      EventRecorded ?cns EventTypeNormal ''Connected'' ''Connected to NATS Server'',
      LoadConsumerCalled [] ''my-consumer'',
      EventRecorded ?cns EventTypeNormal ''Deleting''
        (''Deleting consumer '' @ fmt_q testEnv ''my-consumer''
           @ '' on stream '' @ fmt_q testEnv []),
      LoadConsumerCalled [] ''my-consumer'',
      DeleteCalled,
      UpdateCalled ?cns,
      CloseCalled])"
    by (simp add: reconciler_defs fixture_defs removeFinalizer_def)
  have written: "UpdateCalled ?cns \<in> set
     [EventRecorded ?cns EventTypeNormal ''Connecting'' ''Connecting to NATS Server'',
      ConnectCalled [] [] [],
      EventRecorded ?cns EventTypeNormal ''Connected'' ''Connected to NATS Server'',
      LoadConsumerCalled [] ''my-consumer'',
      EventRecorded ?cns EventTypeNormal ''Deleting''
        (''Deleting consumer '' @ fmt_q testEnv ''my-consumer''
           @ '' on stream '' @ fmt_q testEnv []),
      LoadConsumerCalled [] ''my-consumer'',
      DeleteCalled,
      UpdateCalled ?cns,
      CloseCalled]"
    by simp
  have "Finalizers ?cns = [consumerFinalizerKey]"
    using consumer_finalizer_token [OF differ get run written]
    by (simp add: testConsumer_def)
  then show ?thesis
    using run by simp
qed

end
